theory Spec2Isabelle
  imports Complex_Main "HOL-Library.Multiset"
begin

section \<open>The measurement pipeline of app.py\<close>

text \<open>
  The pipeline of \<^verbatim>\<open>process_frame\<close> is embedded function by function. Python's
  integers are \<^typ>\<open>int\<close>. Python's floats are idealised as exact rationals
  (\<^typ>\<open>rat\<close>): the literals \<^verbatim>\<open>0.2\<close>, \<^verbatim>\<open>0.3\<close>, \<^verbatim>\<open>0.6\<close>, \<^verbatim>\<open>1.3\<close> and
  \<^verbatim>\<open>1.2\<close> are the fractions they denote and no operation rounds, except the explicit
  \<^verbatim>\<open>round(v, 2)\<close>, \<^verbatim>\<open>np.around\<close> and \<^verbatim>\<open>int\<close>.

  OpenCV and numpy are outside the repository. Their operations are the fields of the
  record \<open>cv2\<close>, over an arbitrary type \<open>'img\<close> of images, and every function of the
  pipeline takes that record as its first argument.
\<close>

subsection \<open>Numbers\<close>

definition KNOWN_DISTANCE_MM :: rat where
  "KNOWN_DISTANCE_MM = 63"

text \<open>Rounding to the nearest integer, a tie going to the even neighbour.\<close>

definition round_half_even :: "rat \<Rightarrow> int" where
  "round_half_even q =
     (let f = \<lfloor>q\<rfloor>; d = q - of_int f
      in if d < 1 / 2 then f
         else if 1 / 2 < d then f + 1
         else if even f then f else f + 1)"

text \<open>\<^verbatim>\<open>round(v, 2)\<close>.\<close>

definition py_round2 :: "rat \<Rightarrow> rat" where
  "py_round2 v = of_int (round_half_even (v * 100)) / 100"

text \<open>\<^verbatim>\<open>int(v)\<close> of a float truncates towards zero.\<close>

definition py_int :: "rat \<Rightarrow> int" where
  "py_int v = (if 0 \<le> v then \<lfloor>v\<rfloor> else \<lceil>v\<rceil>)"


subsection \<open>Boxes, circles and the library\<close>

text \<open>
  A detected box is the row \<^verbatim>\<open>(x, y, w, h)\<close> of the array
  \<^verbatim>\<open>detectMultiScale\<close> returns; \<open>b0\<close> to \<open>b3\<close> are \<^verbatim>\<open>b[0]\<close> to \<^verbatim>\<open>b[3]\<close>.
\<close>

type_synonym box = "int \<times> int \<times> int \<times> int"

definition b0 :: "box \<Rightarrow> int" where "b0 b = (case b of (x, y, w, h) \<Rightarrow> x)"
definition b1 :: "box \<Rightarrow> int" where "b1 b = (case b of (x, y, w, h) \<Rightarrow> y)"
definition b2 :: "box \<Rightarrow> int" where "b2 b = (case b of (x, y, w, h) \<Rightarrow> w)"
definition b3 :: "box \<Rightarrow> int" where "b3 b = (case b of (x, y, w, h) \<Rightarrow> h)"

text \<open>A circle \<^verbatim>\<open>(x, y, r)\<close> as \<^verbatim>\<open>HoughCircles\<close> reports it, in floats.\<close>

type_synonym circle = "rat \<times> rat \<times> rat"

text \<open>
  \<^item> \<open>shape img\<close> is \<^verbatim>\<open>img.shape[:2]\<close>, the pair (height, width);
  \<^item> \<open>cvtColor img\<close> is \<^verbatim>\<open>cv2.cvtColor(img, cv2.COLOR_BGR2GRAY)\<close>;
  \<^item> \<open>medianBlur img k\<close> is \<^verbatim>\<open>cv2.medianBlur(img, k)\<close>;
  \<^item> \<open>crop img r0 r1 c0 c1\<close> is the numpy slice \<^verbatim>\<open>img[r0:r1, c0:c1]\<close>;
  \<^item> \<open>face_cascade img scaleFactor minNeighbors minSize\<close> and \<open>eye_cascade\<close> are
    \<^verbatim>\<open>detectMultiScale\<close> of the two loaded classifiers;
  \<^item> \<open>HoughCircles img dp minDist param1 param2 minRadius maxRadius\<close> is
    \<^verbatim>\<open>cv2.HoughCircles(img, cv2.HOUGH_GRADIENT, ...)\<close>. The binding returns
    \<^verbatim>\<open>None\<close> when it finds no circle and an array with at least one row otherwise:
    the value is \<open>None\<close>, or \<open>Some (c, cs)\<close> with \<open>c\<close> the first row and \<open>cs\<close> the
    rows after it.
\<close>

record 'img cv2 =
  shape :: "'img \<Rightarrow> int \<times> int"
  cvtColor :: "'img \<Rightarrow> 'img"
  medianBlur :: "'img \<Rightarrow> int \<Rightarrow> 'img"
  crop :: "'img \<Rightarrow> int \<Rightarrow> int \<Rightarrow> int \<Rightarrow> int \<Rightarrow> 'img"
  face_cascade :: "'img \<Rightarrow> rat \<Rightarrow> int \<Rightarrow> int \<times> int \<Rightarrow> box list"
  eye_cascade :: "'img \<Rightarrow> rat \<Rightarrow> int \<Rightarrow> int \<times> int \<Rightarrow> box list"
  HoughCircles :: "'img \<Rightarrow> int \<Rightarrow> rat \<Rightarrow> int \<Rightarrow> int \<Rightarrow> int \<Rightarrow> int
                   \<Rightarrow> (circle \<times> circle list) option"

text \<open>\<^verbatim>\<open>np.around(circles[0, :]).astype(int)\<close>, on one row.\<close>

definition around_int :: "circle \<Rightarrow> int \<times> int \<times> int" where
  "around_int c =
     (case c of (x, y, r) \<Rightarrow> (round_half_even x, round_half_even y, round_half_even r))"

subsection \<open>The Centering Validator\<close>

definition is_face_centered :: "int \<Rightarrow> int \<Rightarrow> int \<Rightarrow> int \<Rightarrow> int \<Rightarrow> int \<Rightarrow> bool" where
  "is_face_centered face_x face_y face_w face_h frame_width frame_height =
     (let center_x = face_x + face_w div 2;
          center_y = face_y + face_h div 2;
          tolerance_x = of_int frame_width * (2 / 10 :: rat);
          tolerance_y = of_int frame_height * (2 / 10 :: rat);
          min_face_height = of_int frame_height * (3 / 10 :: rat)
      in (of_int (frame_width div 2) - tolerance_x < of_int center_x
            \<and> of_int center_x < of_int (frame_width div 2) + tolerance_x)
         \<and> (of_int (frame_height div 2) - tolerance_y < of_int center_y
            \<and> of_int center_y < of_int (frame_height div 2) + tolerance_y)
         \<and> (of_int face_h > min_face_height))"

subsection \<open>The Sub-feature Detector\<close>

text \<open>The two calls of \<^verbatim>\<open>HoughCircles\<close>, on the blurred gray eye.\<close>

definition iris_circles :: "'img cv2 \<Rightarrow> 'img \<Rightarrow> (circle \<times> circle list) option" where
  "iris_circles cv eye_roi =
     (let gray_eye = cvtColor cv eye_roi;
          gray_eye = medianBlur cv gray_eye 5
      in HoughCircles cv gray_eye 1
           (of_int (fst (shape cv gray_eye)) / 2) 50 30
           5 (py_int (of_int (fst (shape cv gray_eye)) / 2)))"

definition pupil_circles :: "'img cv2 \<Rightarrow> 'img \<Rightarrow> (circle \<times> circle list) option" where
  "pupil_circles cv eye_roi =
     (let gray_eye = cvtColor cv eye_roi;
          gray_eye = medianBlur cv gray_eye 5
      in HoughCircles cv gray_eye 1
           (of_int (fst (shape cv gray_eye)) / 2) 50 30
           3 20)"

definition detect_iris_boundaries :: "'img cv2 \<Rightarrow> 'img \<Rightarrow> int option \<times> int option" where
  "detect_iris_boundaries cv eye_roi =
     (let circles = iris_circles cv eye_roi
      in case circles of
           Some (c, cs) \<Rightarrow>
             (case around_int c of (x, y, r) \<Rightarrow> (Some (x - r), Some (x + r)))
         | None \<Rightarrow> (None, None))"

definition detect_pupil_center :: "'img cv2 \<Rightarrow> 'img \<Rightarrow> (int \<times> int) option" where
  "detect_pupil_center cv eye_roi =
     (let circles = pupil_circles cv eye_roi
      in case circles of
           Some (c, cs) \<Rightarrow> (case around_int c of (x, y, r) \<Rightarrow> Some (x, y))
         | None \<Rightarrow> None)"

subsection \<open>The Calibrator\<close>

text \<open>
  Both branches of the calibration end in the same four lines, which turn the pixel
  distance into the ratio.
\<close>

definition pixel_to_mm_ratio :: "rat \<Rightarrow> rat" where
  "pixel_to_mm_ratio interpupil_distance_pixels =
     (if interpupil_distance_pixels > 0
      then KNOWN_DISTANCE_MM / interpupil_distance_pixels
      else 1)"

text \<open>The pixel quantities of the branch taken when every feature was found.\<close>

definition eye_total_width_pixels :: "box \<Rightarrow> box \<Rightarrow> int \<Rightarrow> int \<Rightarrow> int" where
  "eye_total_width_pixels left_eye right_eye left_boundary right_boundary =
     (let left_iris_global = b0 left_eye + left_boundary;
          right_iris_global = b0 right_eye + right_boundary
      in right_iris_global - left_iris_global)"

definition pupil_distance_pixels :: "box \<Rightarrow> box \<Rightarrow> int \<times> int \<Rightarrow> int \<times> int \<Rightarrow> int" where
  "pupil_distance_pixels left_eye right_eye left_pupil right_pupil =
     (let left_pupil_global = b0 left_eye + fst left_pupil;
          right_pupil_global = b0 right_eye + fst right_pupil
      in right_pupil_global - left_pupil_global)"

text \<open>The pixel quantities of the fallback branch.\<close>

definition avg_eye_width :: "box \<Rightarrow> box \<Rightarrow> rat" where
  "avg_eye_width left_eye right_eye = of_int (b2 left_eye + b2 right_eye) / 2"

definition center_distance_pixels :: "box \<Rightarrow> box \<Rightarrow> rat" where
  "center_distance_pixels left_eye right_eye =
     (let left_center = of_int (b0 left_eye) + of_int (b2 left_eye) / 2;
          right_center = of_int (b0 right_eye) + of_int (b2 right_eye) / 2
      in right_center - left_center)"

text \<open>
  Each branch assigns \<^verbatim>\<open>interpupil_distance_pixels\<close>, \<^verbatim>\<open>pixel_to_mm_ratio\<close>
  and \<^verbatim>\<open>eye_width_mm\<close>; the model returns the three in this order.
\<close>

definition precise_path :: "box \<Rightarrow> box \<Rightarrow> int \<Rightarrow> int \<Rightarrow> int \<times> int \<Rightarrow> int \<times> int
    \<Rightarrow> rat \<times> rat \<times> rat" where
  "precise_path left_eye right_eye left_boundary right_boundary left_pupil right_pupil =
     (let interpupil_distance_pixels =
            of_int (pupil_distance_pixels left_eye right_eye left_pupil right_pupil);
          ratio = pixel_to_mm_ratio interpupil_distance_pixels
      in (interpupil_distance_pixels, ratio,
          py_round2 (of_int (eye_total_width_pixels left_eye right_eye
                               left_boundary right_boundary) * ratio)))"

definition approximate_path :: "box \<Rightarrow> box \<Rightarrow> rat \<times> rat \<times> rat" where
  "approximate_path left_eye right_eye =
     (let interpupil_distance_pixels = center_distance_pixels left_eye right_eye;
          ratio = pixel_to_mm_ratio interpupil_distance_pixels
      in (interpupil_distance_pixels, ratio,
          py_round2 (avg_eye_width left_eye right_eye * ratio)))"

text \<open>The test of the \<^verbatim>\<open>if\<close> that chooses the branch.\<close>

definition precise_guard :: "int option \<times> int option \<Rightarrow> int option \<times> int option
    \<Rightarrow> (int \<times> int) option \<Rightarrow> (int \<times> int) option \<Rightarrow> bool" where
  "precise_guard left_boundaries right_boundaries left_pupil right_pupil =
     (fst left_boundaries \<noteq> None \<and> snd right_boundaries \<noteq> None
      \<and> left_pupil \<noteq> None \<and> right_pupil \<noteq> None)"

definition calibrate :: "box \<Rightarrow> box \<Rightarrow> int option \<times> int option \<Rightarrow> int option \<times> int option
    \<Rightarrow> (int \<times> int) option \<Rightarrow> (int \<times> int) option \<Rightarrow> rat \<times> rat \<times> rat" where
  "calibrate left_eye right_eye left_boundaries right_boundaries left_pupil right_pupil =
     (if precise_guard left_boundaries right_boundaries left_pupil right_pupil
      then precise_path left_eye right_eye
             (the (fst left_boundaries)) (the (snd right_boundaries))
             (the left_pupil) (the right_pupil)
      else approximate_path left_eye right_eye)"

text \<open>The slice of the face that holds one eye.\<close>

definition eye_roi :: "'img cv2 \<Rightarrow> 'img \<Rightarrow> box \<Rightarrow> 'img" where
  "eye_roi cv roi_color eye =
     crop cv roi_color (b1 eye) (b1 eye + b3 eye) (b0 eye) (b0 eye + b2 eye)"

text \<open>Lines 110 to 144: the four detections, then the branch.\<close>

definition calibration :: "'img cv2 \<Rightarrow> 'img \<Rightarrow> box \<Rightarrow> box \<Rightarrow> rat \<times> rat \<times> rat" where
  "calibration cv roi_color left_eye right_eye =
     (let left_eye_roi = eye_roi cv roi_color left_eye;
          right_eye_roi = eye_roi cv roi_color right_eye;
          left_boundaries = detect_iris_boundaries cv left_eye_roi;
          right_boundaries = detect_iris_boundaries cv right_eye_roi;
          left_pupil = detect_pupil_center cv left_eye_roi;
          right_pupil = detect_pupil_center cv right_eye_roi
      in calibrate left_eye right_eye left_boundaries right_boundaries
           left_pupil right_pupil)"

subsection \<open>The Measurement Synthesizer\<close>

record measurement =
  eye_width_mm :: rat
  bridge_width_mm :: rat
  b_size_mm :: rat

definition bridge_distance_pixels :: "box \<Rightarrow> box \<Rightarrow> int" where
  "bridge_distance_pixels left_eye right_eye = b0 right_eye - (b0 left_eye + b2 left_eye)"

definition b_size_pixels :: "box \<Rightarrow> box \<Rightarrow> int" where
  "b_size_pixels left_eye right_eye =
     (let left_eye_height = min (b3 left_eye) (py_int (of_int (b2 left_eye) * (6 / 10)));
          right_eye_height = min (b3 right_eye) (py_int (of_int (b2 right_eye) * (6 / 10)))
      in max left_eye_height right_eye_height)"

text \<open>Lines 110 to 160: from the two chosen eye boxes to the measurement.\<close>

definition measure_eyes :: "'img cv2 \<Rightarrow> 'img \<Rightarrow> box \<Rightarrow> box \<Rightarrow> measurement" where
  "measure_eyes cv roi_color left_eye right_eye =
     (case calibration cv roi_color left_eye right_eye of
        (interpupil_distance_pixels, ratio, eye_width) \<Rightarrow>
          \<lparr>eye_width_mm = eye_width,
           bridge_width_mm =
             py_round2 (of_int (bridge_distance_pixels left_eye right_eye) * ratio),
           b_size_mm = py_round2 (of_int (b_size_pixels left_eye right_eye) * ratio)\<rparr>)"

subsection \<open>The pipeline\<close>

text \<open>
  \<^verbatim>\<open>process_frame\<close> returns a Python pair: \<^verbatim>\<open>(measurement, None)\<close> or
  \<^verbatim>\<open>(None, message)\<close>. The model keeps the pair, each component an option.
\<close>

type_synonym result = "measurement option \<times> string option"

text \<open>The slice \<^verbatim>\<open>img[y:y+h, x:x+w]\<close> of a face, and the eyes found in it.\<close>

definition face_roi :: "'img cv2 \<Rightarrow> 'img \<Rightarrow> box \<Rightarrow> 'img" where
  "face_roi cv img face = (case face of (x, y, w, h) \<Rightarrow> crop cv img y (y + h) x (x + w))"

definition detect_eyes :: "'img cv2 \<Rightarrow> 'img \<Rightarrow> box \<Rightarrow> box list" where
  "detect_eyes cv gray face = eye_cascade cv (face_roi cv gray face) (12 / 10) 5 (30, 30)"

text \<open>\<^verbatim>\<open>sorted\<close> is stable, as \<^const>\<open>sort_key\<close> is.\<close>

definition left_eye_of :: "box list \<Rightarrow> box" where
  "left_eye_of eyes = (let eye_boxes = sort_key b0 eyes in eye_boxes ! 0)"

definition right_eye_of :: "box list \<Rightarrow> box" where
  "right_eye_of eyes = (let eye_boxes = sort_key b0 eyes in eye_boxes ! 1)"

text \<open>The body of the loop for a face that passed the centering test.\<close>

definition process_face :: "'img cv2 \<Rightarrow> 'img \<Rightarrow> 'img \<Rightarrow> box \<Rightarrow> result" where
  "process_face cv frame gray face =
     (let roi_color = face_roi cv frame face;
          eyes = detect_eyes cv gray face
      in if length eyes < 2 then (None, Some ''Not enough eyes detected'')
         else (Some (measure_eyes cv roi_color (left_eye_of eyes) (right_eye_of eyes)),
               None))"

text \<open>The \<^verbatim>\<open>for\<close> loop over the faces, and the \<^verbatim>\<open>return\<close> after it.\<close>

fun face_loop :: "'img cv2 \<Rightarrow> 'img \<Rightarrow> 'img \<Rightarrow> int \<Rightarrow> int \<Rightarrow> box list \<Rightarrow> result" where
  "face_loop cv frame gray frame_width frame_height [] =
     (None, Some ''No centered face found'')"
| "face_loop cv frame gray frame_width frame_height ((x, y, w, h) # faces) =
     (if \<not> is_face_centered x y w h frame_width frame_height
      then face_loop cv frame gray frame_width frame_height faces
      else process_face cv frame gray (x, y, w, h))"

text \<open>The faces the Face Locator reports for a frame.\<close>

definition detect_faces :: "'img cv2 \<Rightarrow> 'img \<Rightarrow> box list" where
  "detect_faces cv frame = face_cascade cv (cvtColor cv frame) (13 / 10) 5 (100, 100)"

definition process_frame :: "'img cv2 \<Rightarrow> 'img \<Rightarrow> result" where
  "process_frame cv frame =
     (case shape cv frame of (frame_height, frame_width) \<Rightarrow>
        (let gray = cvtColor cv frame;
             faces = detect_faces cv frame
         in if length faces = 0 then (None, Some ''No face detected'')
            else face_loop cv frame gray frame_width frame_height faces))"

subsection \<open>Notions of the specification\<close>

text \<open>The centering test of a face against the frame it was found in.\<close>

definition centered :: "'img cv2 \<Rightarrow> 'img \<Rightarrow> box \<Rightarrow> bool" where
  "centered cv frame face =
     (case face of (x, y, w, h) \<Rightarrow>
        is_face_centered x y w h (snd (shape cv frame)) (fst (shape cv frame)))"

text \<open>
  The Centering Validator as the specification words it, on the exact center of the box
  and the exact midpoint of the frame.
\<close>

definition spec_centering_validator :: "int \<Rightarrow> int \<Rightarrow> int \<Rightarrow> int \<Rightarrow> int \<Rightarrow> int \<Rightarrow> bool" where
  "spec_centering_validator face_x face_y face_w face_h frame_width frame_height =
     (\<bar>(of_int face_x + of_int face_w / 2) - of_int frame_width / 2\<bar>
        < (2 / 10 :: rat) * of_int frame_width
      \<and> \<bar>(of_int face_y + of_int face_h / 2) - of_int frame_height / 2\<bar>
        < (2 / 10 :: rat) * of_int frame_height
      \<and> (3 / 10 :: rat) * of_int frame_height < of_int face_h)"


text \<open>Both iris boundaries of an eye, and all four sub-features of a pair of eyes.\<close>

definition iris_present :: "'img cv2 \<Rightarrow> 'img \<Rightarrow> bool" where
  "iris_present cv roi =
     (fst (detect_iris_boundaries cv roi) \<noteq> None
      \<and> snd (detect_iris_boundaries cv roi) \<noteq> None)"

definition features_present :: "'img cv2 \<Rightarrow> 'img \<Rightarrow> 'img \<Rightarrow> bool" where
  "features_present cv left_eye_roi right_eye_roi =
     (iris_present cv left_eye_roi \<and> iris_present cv right_eye_roi
      \<and> detect_pupil_center cv left_eye_roi \<noteq> None
      \<and> detect_pupil_center cv right_eye_roi \<noteq> None)"

text \<open>The pixel quantity that the branch taken scales into \<^verbatim>\<open>eye_width_mm\<close>.\<close>

definition eye_width_pixels :: "'img cv2 \<Rightarrow> 'img \<Rightarrow> box \<Rightarrow> box \<Rightarrow> rat" where
  "eye_width_pixels cv roi_color left_eye right_eye =
     (let left_eye_roi = eye_roi cv roi_color left_eye;
          right_eye_roi = eye_roi cv roi_color right_eye
      in if features_present cv left_eye_roi right_eye_roi
         then of_int (eye_total_width_pixels left_eye right_eye
                        (the (fst (detect_iris_boundaries cv left_eye_roi)))
                        (the (snd (detect_iris_boundaries cv right_eye_roi))))
         else avg_eye_width left_eye right_eye)"

text \<open>
  The face the loop stops at, and for a face the two eye boxes, the colour region and
  the ratio the pipeline works with.
\<close>

definition accepted_face :: "'img cv2 \<Rightarrow> 'img \<Rightarrow> box option" where
  "accepted_face cv frame = find (centered cv frame) (detect_faces cv frame)"

definition face_eyes :: "'img cv2 \<Rightarrow> 'img \<Rightarrow> box \<Rightarrow> box list" where
  "face_eyes cv frame face = detect_eyes cv (cvtColor cv frame) face"

definition face_left_eye :: "'img cv2 \<Rightarrow> 'img \<Rightarrow> box \<Rightarrow> box" where
  "face_left_eye cv frame face = left_eye_of (face_eyes cv frame face)"

definition face_right_eye :: "'img cv2 \<Rightarrow> 'img \<Rightarrow> box \<Rightarrow> box" where
  "face_right_eye cv frame face = right_eye_of (face_eyes cv frame face)"

definition face_calibration :: "'img cv2 \<Rightarrow> 'img \<Rightarrow> box \<Rightarrow> rat \<times> rat \<times> rat" where
  "face_calibration cv frame face =
     calibration cv (face_roi cv frame face)
       (face_left_eye cv frame face) (face_right_eye cv frame face)"

definition face_distance :: "'img cv2 \<Rightarrow> 'img \<Rightarrow> box \<Rightarrow> rat" where
  "face_distance cv frame face = fst (face_calibration cv frame face)"

definition face_ratio :: "'img cv2 \<Rightarrow> 'img \<Rightarrow> box \<Rightarrow> rat" where
  "face_ratio cv frame face = fst (snd (face_calibration cv frame face))"

definition face_features_present :: "'img cv2 \<Rightarrow> 'img \<Rightarrow> box \<Rightarrow> bool" where
  "face_features_present cv frame face =
     features_present cv
       (eye_roi cv (face_roi cv frame face) (face_left_eye cv frame face))
       (eye_roi cv (face_roi cv frame face) (face_right_eye cv frame face))"

text \<open>The three pixel quantities of a face, rounded and not converted.\<close>

definition pixel_measurement :: "'img cv2 \<Rightarrow> 'img \<Rightarrow> box \<Rightarrow> measurement" where
  "pixel_measurement cv frame face =
     \<lparr>eye_width_mm =
        py_round2 (eye_width_pixels cv (face_roi cv frame face)
          (face_left_eye cv frame face) (face_right_eye cv frame face)),
      bridge_width_mm =
        py_round2 (of_int (bridge_distance_pixels
          (face_left_eye cv frame face) (face_right_eye cv frame face))),
      b_size_mm =
        py_round2 (of_int (b_size_pixels
          (face_left_eye cv frame face) (face_right_eye cv frame face)))\<rparr>"

subsection \<open>Scenarios\<close>

text \<open>
  Test images carry no pixels: a view is the rectangle (top row, left column, height,
  width) it shows of the photograph, and slicing moves and shrinks the rectangle. The
  detectors of a scenario answer with fixed boxes; its circle detector is a function of
  the view and of \<^verbatim>\<open>minRadius\<close>, which tells the iris search (5) from the pupil
  search (3).
\<close>

datatype view = View int int int int

definition scenario :: "box list \<Rightarrow> box list
    \<Rightarrow> (view \<Rightarrow> int \<Rightarrow> (circle \<times> circle list) option) \<Rightarrow> view cv2" where
  "scenario faces eyes circles =
     \<lparr>shape = (\<lambda>img. case img of View r c h w \<Rightarrow> (h, w)),
      cvtColor = (\<lambda>img. img),
      medianBlur = (\<lambda>img k. img),
      crop = (\<lambda>img r0 r1 c0 c1.
                case img of View r c h w \<Rightarrow> View (r + r0) (c + c0) (r1 - r0) (c1 - c0)),
      face_cascade = (\<lambda>img scaleFactor minNeighbors minSize. faces),
      eye_cascade = (\<lambda>img scaleFactor minNeighbors minSize. eyes),
      HoughCircles = (\<lambda>img dp minDist param1 param2 minRadius maxRadius.
                        circles img minRadius)\<rparr>"

definition no_circles :: "view \<Rightarrow> int \<Rightarrow> (circle \<times> circle list) option" where
  "no_circles img minRadius = None"

text \<open>An iris of radius 8 and a pupil of radius 4 in the middle of a 30 by 30 eye.\<close>

definition centred_circles :: "view \<Rightarrow> int \<Rightarrow> (circle \<times> circle list) option" where
  "centred_circles img minRadius =
     (if minRadius = 5 then Some ((15, 15, 8), []) else Some ((15, 15, 4), []))"

text \<open>A 640 by 480 photograph and a 200 by 200 face in its middle.\<close>

definition photo :: view where
  "photo = View 0 0 480 640"

definition middle_face :: box where
  "middle_face = (220, 140, 200, 200)"

text \<open>
  Scenario A of the specification: two 30 by 30 eye boxes at x = 40 and x = 130, reported
  right eye first, and no circle in either.
\<close>

definition scenario_A :: "view cv2" where
  "scenario_A = scenario [middle_face] [(130, 60, 30, 30), (40, 60, 30, 30)] no_circles"

text \<open>The same boxes with an iris and a pupil found in each.\<close>

definition scenario_circles :: "view cv2" where
  "scenario_circles =
     scenario [middle_face] [(130, 60, 30, 30), (40, 60, 30, 30)] centred_circles"

text \<open>A third box further right, and an off-centre face before the centred one.\<close>

definition scenario_three :: "view cv2" where
  "scenario_three =
     scenario [(0, 0, 200, 200), middle_face]
       [(130, 60, 30, 30), (150, 100, 30, 30), (40, 60, 30, 30)] no_circles"

text \<open>Two boxes at the same x, the second narrower: the centre distance is \<open>- 5\<close>.\<close>

definition scenario_inverted :: "view cv2" where
  "scenario_inverted =
     scenario [middle_face] [(40, 60, 40, 40), (40, 60, 30, 30)] no_circles"






section \<open>Properties\<close>

subsection \<open>The shape of the pipeline\<close>

lemma process_face_cases:
  "process_face cv frame gray face =
     (if length (detect_eyes cv gray face) < 2
      then (None, Some ''Not enough eyes detected'')
      else (Some (measure_eyes cv (face_roi cv frame face)
                    (left_eye_of (detect_eyes cv gray face))
                    (right_eye_of (detect_eyes cv gray face))), None))"
  by (simp add: process_face_def Let_def)

text \<open>The loop returns what its body returns on the first face that passes the test.\<close>

lemma face_loop_find:
  "face_loop cv frame gray fw fh faces =
     (case find (\<lambda>(x, y, w, h). is_face_centered x y w h fw fh) faces of
        None \<Rightarrow> (None, Some ''No centered face found'')
      | Some face \<Rightarrow> process_face cv frame gray face)"
  by (induction faces) auto

lemma process_frame_find:
  "process_frame cv frame =
     (if detect_faces cv frame = [] then (None, Some ''No face detected'')
      else case find (centered cv frame) (detect_faces cv frame) of
             None \<Rightarrow> (None, Some ''No centered face found'')
           | Some face \<Rightarrow> process_face cv frame (cvtColor cv frame) face)"
proof -
  obtain fh fw where s: "shape cv frame = (fh, fw)" by (cases "shape cv frame")
  have c: "centered cv frame = (\<lambda>(x, y, w, h). is_face_centered x y w h fw fh)"
    by (auto simp: centered_def s fun_eq_iff)
  show ?thesis
    by (simp add: process_frame_def s Let_def face_loop_find c)
qed

lemma find_None_list_ex: "(find P xs = None) = (\<not> list_ex P xs)"
  by (auto simp: find_None_iff list_ex_iff)

text \<open>
  Claim C1. For every frame, one call of \<^verbatim>\<open>process_frame\<close> returns either a
  measurement with no message or a message with no measurement: never both, never
  neither.
\<close>

theorem process_frame_exactly_one:
  "((\<exists>m. process_frame cv frame = (Some m, None))
      \<or> (\<exists>e. process_frame cv frame = (None, Some e)))
   \<and> \<not> ((\<exists>m. fst (process_frame cv frame) = Some m)
          \<and> (\<exists>e. snd (process_frame cv frame) = Some e))
   \<and> \<not> (fst (process_frame cv frame) = None \<and> snd (process_frame cv frame) = None)"
  by (simp add: process_frame_find process_face_cases split: option.split)

text \<open>
  Claim C4. The pipeline fails with "No face detected" exactly when the Face Locator
  reports no face; with "No centered face found" exactly when it reports at least one
  face and none passes the centering test; and with "Not enough eyes detected" exactly
  when the first face that passes the test has fewer than two eye boxes in its region.
\<close>

theorem pipeline_errors:
  "((process_frame cv frame = (None, Some ''No face detected''))
      = (detect_faces cv frame = []))
   \<and> ((process_frame cv frame = (None, Some ''No centered face found''))
      = (detect_faces cv frame \<noteq> []
         \<and> \<not> list_ex (centered cv frame) (detect_faces cv frame)))
   \<and> ((process_frame cv frame = (None, Some ''Not enough eyes detected''))
      = (\<exists>face. find (centered cv frame) (detect_faces cv frame) = Some face
           \<and> length (detect_eyes cv (cvtColor cv frame) face) < 2))"
proof (cases "find (centered cv frame) (detect_faces cv frame)")
  case None
  then have "\<not> list_ex (centered cv frame) (detect_faces cv frame)"
    by (simp add: find_None_list_ex)
  with None show ?thesis
    by (simp add: process_frame_find)
next
  case (Some face)
  then have "list_ex (centered cv frame) (detect_faces cv frame)"
    using find_None_list_ex [of "centered cv frame" "detect_faces cv frame"] by simp
  moreover from Some have "detect_faces cv frame \<noteq> []" by auto
  ultimately show ?thesis using Some
    by (simp add: process_frame_find process_face_cases)
qed

lemma process_frame_accepted:
  "process_frame cv frame =
     (if detect_faces cv frame = [] then (None, Some ''No face detected'')
      else case accepted_face cv frame of
             None \<Rightarrow> (None, Some ''No centered face found'')
           | Some face \<Rightarrow>
               if length (face_eyes cv frame face) < 2
               then (None, Some ''Not enough eyes detected'')
               else (Some (measure_eyes cv (face_roi cv frame face)
                       (face_left_eye cv frame face) (face_right_eye cv frame face)), None))"
  by (simp add: process_frame_find process_face_cases accepted_face_def face_eyes_def
      face_left_eye_def face_right_eye_def split: option.split)

lemma accepted_face_nonempty: "accepted_face cv frame = Some face \<Longrightarrow> detect_faces cv frame \<noteq> []"
  by (auto simp: accepted_face_def)

lemma process_frame_reaches:
  "accepted_face cv frame = Some face \<Longrightarrow> 2 \<le> length (face_eyes cv frame face) \<Longrightarrow>
   process_frame cv frame =
     (Some (measure_eyes cv (face_roi cv frame face)
        (face_left_eye cv frame face) (face_right_eye cv frame face)), None)"
  using accepted_face_nonempty [of cv frame face] by (simp add: process_frame_accepted)


subsection \<open>The Centering Validator\<close>

lemma strict_band: "(m - t < c \<and> c < m + t) = (\<bar>c - m\<bar> < (t::rat))"
  by (auto simp: abs_less_iff)

lemma is_face_centered_abs:
  "is_face_centered face_x face_y face_w face_h frame_width frame_height
     = (\<bar>of_int (face_x + face_w div 2) - of_int (frame_width div 2)\<bar>
          < (2 / 10 :: rat) * of_int frame_width
        \<and> \<bar>of_int (face_y + face_h div 2) - of_int (frame_height div 2)\<bar>
          < (2 / 10 :: rat) * of_int frame_height
        \<and> (3 / 10 :: rat) * of_int frame_height < of_int face_h)"
  unfolding is_face_centered_def Let_def strict_band
  by (simp only: mult.commute)

text \<open>
  Claim C5, as the code has it. The validator accepts a face exactly when the center it
  computes, \<open>x + w div 2\<close> and \<open>y + h div 2\<close> with the halves rounded down,
  lies strictly within 20% of the frame width of \<open>frame_width div 2\<close> and strictly
  within 20% of the frame height of \<open>frame_height div 2\<close>, and the height of the face
  strictly exceeds 30% of the frame height. A computed center exactly on a tolerance
  boundary is rejected.
\<close>

theorem is_face_centered_floor_rule:
  "(is_face_centered face_x face_y face_w face_h frame_width frame_height
      = (\<bar>of_int (face_x + face_w div 2) - of_int (frame_width div 2)\<bar>
           < (2 / 10 :: rat) * of_int frame_width
         \<and> \<bar>of_int (face_y + face_h div 2) - of_int (frame_height div 2)\<bar>
           < (2 / 10 :: rat) * of_int frame_height
         \<and> (3 / 10 :: rat) * of_int frame_height < of_int face_h))
   \<and> (\<bar>of_int (face_x + face_w div 2) - of_int (frame_width div 2)\<bar>
           = (2 / 10 :: rat) * of_int frame_width
        \<or> \<bar>of_int (face_y + face_h div 2) - of_int (frame_height div 2)\<bar>
           = (2 / 10 :: rat) * of_int frame_height
       \<longrightarrow> \<not> is_face_centered face_x face_y face_w face_h frame_width frame_height)"
proof (intro conjI impI)
  show "is_face_centered face_x face_y face_w face_h frame_width frame_height
      = (\<bar>of_int (face_x + face_w div 2) - of_int (frame_width div 2)\<bar>
           < (2 / 10 :: rat) * of_int frame_width
         \<and> \<bar>of_int (face_y + face_h div 2) - of_int (frame_height div 2)\<bar>
           < (2 / 10 :: rat) * of_int frame_height
         \<and> (3 / 10 :: rat) * of_int frame_height < of_int face_h)"
    by (rule is_face_centered_abs)
next
  assume "\<bar>of_int (face_x + face_w div 2) - of_int (frame_width div 2)\<bar>
           = (2 / 10 :: rat) * of_int frame_width
        \<or> \<bar>of_int (face_y + face_h div 2) - of_int (frame_height div 2)\<bar>
           = (2 / 10 :: rat) * of_int frame_height"
  then show "\<not> is_face_centered face_x face_y face_w face_h frame_width frame_height"
    unfolding is_face_centered_abs by linarith
qed

text \<open>
  A face whose computed center is exactly 80 pixels from the computed midpoint of a
  400 by 400 frame is rejected; one pixel further in, it is accepted.
\<close>

theorem is_face_centered_floor_rule_witness:
  "\<bar>of_int (0 + 240 div 2) - of_int (400 div 2)\<bar> = (2 / 10 :: rat) * of_int 400
   \<and> \<not> is_face_centered 0 80 240 240 400 400
   \<and> is_face_centered 1 80 240 240 400 400"
proof -
  have b: "\<bar>of_int (0 + 240 div 2) - of_int (400 div 2)\<bar> = (2 / 10 :: rat) * of_int 400"
    by simp
  with is_face_centered_floor_rule [of 0 80 240 240 400 400]
  have "\<not> is_face_centered 0 80 240 240 400 400" by blast
  moreover from is_face_centered_floor_rule [of 1 80 240 240 400 400]
  have "is_face_centered 1 80 240 240 400 400" by simp
  ultimately show ?thesis using b by (intro conjI)
qed

text \<open>
  With the exact center and the exact midpoint the rule differs: in a frame 401 wide the
  midpoint is 200.5 and the tolerance 80.2, and a face centered at x = 120 is 80.5 away,
  yet the validator, which measures from 200, accepts it.
\<close>

theorem centering_exact_midpoint_counterexample:
  "is_face_centered 0 80 240 240 401 400
   \<and> \<not> spec_centering_validator 0 80 240 240 401 400"
  by (simp add: is_face_centered_def spec_centering_validator_def)

subsection \<open>The Sub-feature Detector and the choice of the path\<close>

lemma detect_iris_boundaries_cases:
  "detect_iris_boundaries cv roi = (None, None)
   \<or> (\<exists>l r. detect_iris_boundaries cv roi = (Some l, Some r))"
  by (auto simp: detect_iris_boundaries_def Let_def split: option.split prod.split)

lemma iris_present_fst: "iris_present cv roi = (fst (detect_iris_boundaries cv roi) \<noteq> None)"
  using detect_iris_boundaries_cases [of cv roi] by (auto simp: iris_present_def)

lemma iris_present_snd: "iris_present cv roi = (snd (detect_iris_boundaries cv roi) \<noteq> None)"
  using detect_iris_boundaries_cases [of cv roi] by (auto simp: iris_present_def)

lemma precise_guard_features:
  "precise_guard (detect_iris_boundaries cv left_roi) (detect_iris_boundaries cv right_roi)
     (detect_pupil_center cv left_roi) (detect_pupil_center cv right_roi)
   = features_present cv left_roi right_roi"
  by (simp add: precise_guard_def features_present_def
      iris_present_fst [of cv left_roi] iris_present_snd [of cv right_roi])

text \<open>
  Claim C10. The iris detector returns both boundaries absent when no circle is found,
  and otherwise both present, as center minus radius and center plus radius of the first
  circle after rounding. So the test of the branch, which looks at the left boundary of
  the left eye and the right boundary of the right eye only, holds exactly when both
  boundaries of both eyes and both pupil centers are present.
\<close>

theorem iris_boundaries_both_or_neither:
  "(detect_iris_boundaries cv roi =
      (case iris_circles cv roi of
         None \<Rightarrow> (None, None)
       | Some (c, cs) \<Rightarrow>
           (Some (fst (around_int c) - snd (snd (around_int c))),
            Some (fst (around_int c) + snd (snd (around_int c))))))
   \<and> ((fst (detect_iris_boundaries cv roi) = None) = (snd (detect_iris_boundaries cv roi) = None))
   \<and> (precise_guard (detect_iris_boundaries cv left_roi) (detect_iris_boundaries cv right_roi)
         (detect_pupil_center cv left_roi) (detect_pupil_center cv right_roi)
       = ((fst (detect_iris_boundaries cv left_roi) \<noteq> None
            \<and> snd (detect_iris_boundaries cv left_roi) \<noteq> None)
          \<and> (fst (detect_iris_boundaries cv right_roi) \<noteq> None
            \<and> snd (detect_iris_boundaries cv right_roi) \<noteq> None)
          \<and> detect_pupil_center cv left_roi \<noteq> None
          \<and> detect_pupil_center cv right_roi \<noteq> None))"
proof (intro conjI)
  show "detect_iris_boundaries cv roi =
      (case iris_circles cv roi of
         None \<Rightarrow> (None, None)
       | Some (c, cs) \<Rightarrow>
           (Some (fst (around_int c) - snd (snd (around_int c))),
            Some (fst (around_int c) + snd (snd (around_int c)))))"
    by (simp add: detect_iris_boundaries_def split: option.split prod.split)
next
  show "(fst (detect_iris_boundaries cv roi) = None) = (snd (detect_iris_boundaries cv roi) = None)"
    using detect_iris_boundaries_cases [of cv roi] by auto
next
  show "precise_guard (detect_iris_boundaries cv left_roi) (detect_iris_boundaries cv right_roi)
         (detect_pupil_center cv left_roi) (detect_pupil_center cv right_roi)
       = ((fst (detect_iris_boundaries cv left_roi) \<noteq> None
            \<and> snd (detect_iris_boundaries cv left_roi) \<noteq> None)
          \<and> (fst (detect_iris_boundaries cv right_roi) \<noteq> None
            \<and> snd (detect_iris_boundaries cv right_roi) \<noteq> None)
          \<and> detect_pupil_center cv left_roi \<noteq> None
          \<and> detect_pupil_center cv right_roi \<noteq> None)"
    using precise_guard_features [of cv left_roi right_roi]
    by (simp add: features_present_def iris_present_def)
qed

lemma calibration_if:
  "calibration cv roi le re =
     (if features_present cv (eye_roi cv roi le) (eye_roi cv roi re)
      then precise_path le re
             (the (fst (detect_iris_boundaries cv (eye_roi cv roi le))))
             (the (snd (detect_iris_boundaries cv (eye_roi cv roi re))))
             (the (detect_pupil_center cv (eye_roi cv roi le)))
             (the (detect_pupil_center cv (eye_roi cv roi re)))
      else approximate_path le re)"
  by (simp add: calibration_def calibrate_def Let_def precise_guard_features)

text \<open>
  Claim C2. When both iris boundaries and the pupil center are present for both eyes
  the calibration is that of the precise path, on the left boundary of the left eye, the
  right boundary of the right eye and the two pupil centers. When any of them is absent
  it is that of the approximate path, which works from the mean of the two box widths and
  the distance between the two horizontal box centers. The two cases exclude each
  other and cover every request.
\<close>

theorem calibration_path_selection:
  "(features_present cv (eye_roi cv roi le) (eye_roi cv roi re) \<longrightarrow>
      (\<exists>ll lr rl rr lp rp.
         detect_iris_boundaries cv (eye_roi cv roi le) = (Some ll, Some lr)
         \<and> detect_iris_boundaries cv (eye_roi cv roi re) = (Some rl, Some rr)
         \<and> detect_pupil_center cv (eye_roi cv roi le) = Some lp
         \<and> detect_pupil_center cv (eye_roi cv roi re) = Some rp
         \<and> calibration cv roi le re = precise_path le re ll rr lp rp))
   \<and> (\<not> features_present cv (eye_roi cv roi le) (eye_roi cv roi re) \<longrightarrow>
        calibration cv roi le re = approximate_path le re
        \<and> approximate_path le re =
            (let mean_width = (of_int (b2 le) + of_int (b2 re)) / 2;
                 distance = (of_int (b0 re) + of_int (b2 re) / 2)
                            - (of_int (b0 le) + of_int (b2 le) / 2)
             in (distance, pixel_to_mm_ratio distance,
                 py_round2 (mean_width * pixel_to_mm_ratio distance))))"
proof (intro conjI impI)
  assume p: "features_present cv (eye_roi cv roi le) (eye_roi cv roi re)"
  then obtain ll lr rl rr lp rp where
    d: "detect_iris_boundaries cv (eye_roi cv roi le) = (Some ll, Some lr)"
       "detect_iris_boundaries cv (eye_roi cv roi re) = (Some rl, Some rr)"
       "detect_pupil_center cv (eye_roi cv roi le) = Some lp"
       "detect_pupil_center cv (eye_roi cv roi re) = Some rp"
    using detect_iris_boundaries_cases [of cv "eye_roi cv roi le"]
      detect_iris_boundaries_cases [of cv "eye_roi cv roi re"]
    by (auto simp: features_present_def iris_present_def)
  with p have "calibration cv roi le re = precise_path le re ll rr lp rp"
    by (simp add: calibration_if)
  with d show "\<exists>ll lr rl rr lp rp.
         detect_iris_boundaries cv (eye_roi cv roi le) = (Some ll, Some lr)
         \<and> detect_iris_boundaries cv (eye_roi cv roi re) = (Some rl, Some rr)
         \<and> detect_pupil_center cv (eye_roi cv roi le) = Some lp
         \<and> detect_pupil_center cv (eye_roi cv roi re) = Some rp
         \<and> calibration cv roi le re = precise_path le re ll rr lp rp"
    by blast
next
  assume "\<not> features_present cv (eye_roi cv roi le) (eye_roi cv roi re)"
  then show "calibration cv roi le re = approximate_path le re"
    by (simp add: calibration_if)
next
  show "approximate_path le re =
            (let mean_width = (of_int (b2 le) + of_int (b2 re)) / 2;
                 distance = (of_int (b0 re) + of_int (b2 re) / 2)
                            - (of_int (b0 le) + of_int (b2 le) / 2)
             in (distance, pixel_to_mm_ratio distance,
                 py_round2 (mean_width * pixel_to_mm_ratio distance)))"
    by (simp add: approximate_path_def Let_def center_distance_pixels_def avg_eye_width_def)
qed

text \<open>
  With circles in both eyes the precise path is taken; with none, the approximate one.
\<close>

theorem calibration_path_selection_witness:
  "features_present scenario_circles
     (eye_roi scenario_circles (View 140 220 200 200) (40, 60, 30, 30))
     (eye_roi scenario_circles (View 140 220 200 200) (130, 60, 30, 30))
   \<and> calibration scenario_circles (View 140 220 200 200) (40, 60, 30, 30) (130, 60, 30, 30)
       = precise_path (40, 60, 30, 30) (130, 60, 30, 30) 7 23 (15, 15) (15, 15)
   \<and> \<not> features_present scenario_A
     (eye_roi scenario_A (View 140 220 200 200) (40, 60, 30, 30))
     (eye_roi scenario_A (View 140 220 200 200) (130, 60, 30, 30))
   \<and> calibration scenario_A (View 140 220 200 200) (40, 60, 30, 30) (130, 60, 30, 30)
       = approximate_path (40, 60, 30, 30) (130, 60, 30, 30)"
proof -
  let ?roi = "View 140 220 200 200" and ?le = "(40, 60, 30, 30) :: box"
    and ?re = "(130, 60, 30, 30) :: box"
  have p: "features_present scenario_circles
     (eye_roi scenario_circles ?roi ?le) (eye_roi scenario_circles ?roi ?re)"
    by code_simp
  have v: "detect_iris_boundaries scenario_circles (eye_roi scenario_circles ?roi ?le)
             = (Some 7, Some 23)"
    "detect_iris_boundaries scenario_circles (eye_roi scenario_circles ?roi ?re)
             = (Some 7, Some 23)"
    "detect_pupil_center scenario_circles (eye_roi scenario_circles ?roi ?le) = Some (15, 15)"
    "detect_pupil_center scenario_circles (eye_roi scenario_circles ?roi ?re) = Some (15, 15)"
    by code_simp+
  have a: "\<not> features_present scenario_A
     (eye_roi scenario_A ?roi ?le) (eye_roi scenario_A ?roi ?re)"
    by code_simp
  from calibration_path_selection [of scenario_circles ?roi ?le ?re] p v
  have "calibration scenario_circles ?roi ?le ?re
          = precise_path ?le ?re 7 23 (15, 15) (15, 15)"
    by auto
  moreover from calibration_path_selection [of scenario_A ?roi ?le ?re] a
  have "calibration scenario_A ?roi ?le ?re = approximate_path ?le ?re"
    by (elim conjE) simp
  ultimately show ?thesis using p a by (intro conjI)
qed

subsection \<open>The ratio and the measurement\<close>

lemma measure_eyes_fields:
  "measure_eyes cv roi le re =
     \<lparr>eye_width_mm = snd (snd (calibration cv roi le re)),
      bridge_width_mm =
        py_round2 (of_int (bridge_distance_pixels le re) * fst (snd (calibration cv roi le re))),
      b_size_mm =
        py_round2 (of_int (b_size_pixels le re) * fst (snd (calibration cv roi le re)))\<rparr>"
  by (simp add: measure_eyes_def split: prod.split)

lemma calibration_distance:
  "fst (calibration cv roi le re) =
     (if features_present cv (eye_roi cv roi le) (eye_roi cv roi re)
      then of_int (pupil_distance_pixels le re
                     (the (detect_pupil_center cv (eye_roi cv roi le)))
                     (the (detect_pupil_center cv (eye_roi cv roi re))))
      else center_distance_pixels le re)"
  by (simp add: calibration_if precise_path_def approximate_path_def Let_def)

lemma calibration_ratio:
  "fst (snd (calibration cv roi le re)) = pixel_to_mm_ratio (fst (calibration cv roi le re))"
  by (simp add: calibration_if precise_path_def approximate_path_def Let_def)

lemma calibration_eye_width:
  "snd (snd (calibration cv roi le re)) =
     py_round2 (eye_width_pixels cv roi le re * fst (snd (calibration cv roi le re)))"
  by (simp add: calibration_if precise_path_def approximate_path_def Let_def
      eye_width_pixels_def)


lemma face_ratio_distance:
  "face_ratio cv frame face = pixel_to_mm_ratio (face_distance cv frame face)"
  by (simp add: face_ratio_def face_distance_def face_calibration_def calibration_ratio)

lemma face_measure_fields:
  "measure_eyes cv (face_roi cv frame face)
     (face_left_eye cv frame face) (face_right_eye cv frame face) =
     \<lparr>eye_width_mm =
        py_round2 (eye_width_pixels cv (face_roi cv frame face)
           (face_left_eye cv frame face) (face_right_eye cv frame face)
         * face_ratio cv frame face),
      bridge_width_mm =
        py_round2 (of_int (bridge_distance_pixels
           (face_left_eye cv frame face) (face_right_eye cv frame face))
         * face_ratio cv frame face),
      b_size_mm =
        py_round2 (of_int (b_size_pixels
           (face_left_eye cv frame face) (face_right_eye cv frame face))
         * face_ratio cv frame face)\<rparr>"
  by (simp add: measure_eyes_fields calibration_eye_width face_ratio_def face_calibration_def)

text \<open>
  Claim C3. For a frame with an accepted face and at least two eye boxes the pipeline
  returns a measurement, whatever the pixel distance. When the distance is zero or
  negative the ratio is 1 and each field is its pixel quantity, rounded to 2 decimals.
  When it is positive the ratio is 63 divided by it. The distance is the pupil distance
  on the precise path and the distance of the box centers on the approximate path.
\<close>

theorem degenerate_distance_ratio:
  assumes "accepted_face cv frame = Some face"
    and "2 \<le> length (face_eyes cv frame face)"
  shows "(\<exists>m. process_frame cv frame = (Some m, None)
            \<and> (face_distance cv frame face \<le> 0 \<longrightarrow>
                 face_ratio cv frame face = 1 \<and> m = pixel_measurement cv frame face))
         \<and> (0 < face_distance cv frame face \<longrightarrow>
              face_ratio cv frame face = 63 / face_distance cv frame face)
         \<and> face_distance cv frame face =
             (if face_features_present cv frame face
              then of_int (pupil_distance_pixels
                     (face_left_eye cv frame face) (face_right_eye cv frame face)
                     (the (detect_pupil_center cv (eye_roi cv (face_roi cv frame face)
                             (face_left_eye cv frame face))))
                     (the (detect_pupil_center cv (eye_roi cv (face_roi cv frame face)
                             (face_right_eye cv frame face)))))
              else center_distance_pixels
                     (face_left_eye cv frame face) (face_right_eye cv frame face))"
proof (intro conjI impI)
  let ?m = "measure_eyes cv (face_roi cv frame face)
              (face_left_eye cv frame face) (face_right_eye cv frame face)"
  have returned: "process_frame cv frame = (Some ?m, None)"
    using assms by (rule process_frame_reaches)
  have degenerate: "face_ratio cv frame face = 1 \<and> ?m = pixel_measurement cv frame face"
    if d: "face_distance cv frame face \<le> 0"
  proof -
    from d have one: "face_ratio cv frame face = 1"
      by (simp add: face_ratio_distance pixel_to_mm_ratio_def)
    then have "?m = pixel_measurement cv frame face"
      by (simp add: face_measure_fields pixel_measurement_def)
    with one show ?thesis ..
  qed
  show "\<exists>m. process_frame cv frame = (Some m, None)
            \<and> (face_distance cv frame face \<le> 0 \<longrightarrow>
                 face_ratio cv frame face = 1 \<and> m = pixel_measurement cv frame face)"
  proof (intro exI [of _ ?m] conjI impI)
    show "process_frame cv frame = (Some ?m, None)" by (rule returned)
    show "face_ratio cv frame face = 1" if "face_distance cv frame face \<le> 0"
      using degenerate [OF that] ..
    show "?m = pixel_measurement cv frame face" if "face_distance cv frame face \<le> 0"
      using degenerate [OF that] ..
  qed
  show "face_ratio cv frame face = 63 / face_distance cv frame face"
    if "0 < face_distance cv frame face"
    using that by (simp add: face_ratio_distance pixel_to_mm_ratio_def KNOWN_DISTANCE_MM_def)
  show "face_distance cv frame face =
             (if face_features_present cv frame face
              then of_int (pupil_distance_pixels
                     (face_left_eye cv frame face) (face_right_eye cv frame face)
                     (the (detect_pupil_center cv (eye_roi cv (face_roi cv frame face)
                             (face_left_eye cv frame face))))
                     (the (detect_pupil_center cv (eye_roi cv (face_roi cv frame face)
                             (face_right_eye cv frame face)))))
              else center_distance_pixels
                     (face_left_eye cv frame face) (face_right_eye cv frame face))"
    by (simp add: face_distance_def face_calibration_def calibration_distance
        face_features_present_def)
qed

text \<open>
  Two boxes whose centers are inverted give the ratio 1 and the pixel quantities;
  scenario A, with a distance of 90 pixels, gives 63 / 90.
\<close>

theorem degenerate_distance_ratio_witness:
  "accepted_face scenario_inverted photo = Some middle_face
   \<and> 2 \<le> length (face_eyes scenario_inverted photo middle_face)
   \<and> face_distance scenario_inverted photo middle_face = - 5
   \<and> face_ratio scenario_inverted photo middle_face = 1
   \<and> process_frame scenario_inverted photo
       = (Some \<lparr>eye_width_mm = 35, bridge_width_mm = - 40, b_size_mm = 24\<rparr>, None)
   \<and> accepted_face scenario_A photo = Some middle_face
   \<and> 2 \<le> length (face_eyes scenario_A photo middle_face)
   \<and> face_distance scenario_A photo middle_face = 90
   \<and> face_ratio scenario_A photo middle_face = 63 / 90"
proof -
  have a: "accepted_face scenario_inverted photo = Some middle_face" by code_simp
  have e: "2 \<le> length (face_eyes scenario_inverted photo middle_face)" by code_simp
  have d: "face_distance scenario_inverted photo middle_face = - 5" by code_simp
  have v: "pixel_measurement scenario_inverted photo middle_face
             = \<lparr>eye_width_mm = 35, bridge_width_mm = - 40, b_size_mm = 24\<rparr>"
    by code_simp
  have a': "accepted_face scenario_A photo = Some middle_face" by code_simp
  have e': "2 \<le> length (face_eyes scenario_A photo middle_face)" by code_simp
  have d': "face_distance scenario_A photo middle_face = 90" by code_simp
  note i = degenerate_distance_ratio [OF a e]
  note p = degenerate_distance_ratio [OF a' e']
  from i d have "face_ratio scenario_inverted photo middle_face = 1"
    by (elim conjE exE) simp
  moreover from i d v have "process_frame scenario_inverted photo
       = (Some \<lparr>eye_width_mm = 35, bridge_width_mm = - 40, b_size_mm = 24\<rparr>, None)"
    by (elim conjE exE) simp
  moreover from p d' have "face_ratio scenario_A photo middle_face = 63 / 90"
    by (elim conjE exE) simp
  ultimately show ?thesis using a e d a' e' d' by (intro conjI)
qed

subsection \<open>Rounding\<close>








subsection \<open>The bridge width\<close>







subsection \<open>The fields of a measurement\<close>









subsection \<open>The choice of the two eyes\<close>

lemma sort_key_two:
  assumes "2 \<le> length xs"
  obtains l r rest where "sort_key f xs = l # r # rest"
proof -
  have "length (sort_key f xs) = length xs" by simp
  with assms have "2 \<le> length (sort_key f xs)" by simp
  then obtain l r rest where "sort_key f xs = l # r # rest"
    by (cases "sort_key f xs"; cases "tl (sort_key f xs)") auto
  then show ?thesis by (rule that)
qed

text \<open>
  Claim C9. When the eye detector reports two or more boxes in the face, the boxes
  sorted by ascending x begin with the left eye and the right eye, so the x of the left
  eye is at most the x of the right eye and no other box has a smaller x than the right
  eye. The measurement is computed from these two boxes alone.
\<close>

theorem two_leftmost_eyes:
  assumes "2 \<le> length (detect_eyes cv gray face)"
  shows "\<exists>left right rest.
           sort_key b0 (detect_eyes cv gray face) = left # right # rest
           \<and> mset (detect_eyes cv gray face) = {#left, right#} + mset rest
           \<and> b0 left \<le> b0 right
           \<and> (\<forall>b \<in> set rest. b0 right \<le> b0 b)
           \<and> process_face cv frame gray face
               = (Some (measure_eyes cv (face_roi cv frame face) left right), None)"
proof -
  let ?eyes = "detect_eyes cv gray face"
  from assms obtain l r rest where s: "sort_key b0 ?eyes = l # r # rest"
    by (rule sort_key_two)
  have "mset (sort_key b0 ?eyes) = mset ?eyes" by simp
  then have ms: "mset ?eyes = {#l, r#} + mset rest" by (simp add: s)
  have "sorted (map b0 (sort_key b0 ?eyes))" by (rule sorted_sort_key)
  then have ord: "b0 l \<le> b0 r" "\<forall>b \<in> set rest. b0 r \<le> b0 b" by (simp_all add: s)
  have "left_eye_of ?eyes = l" "right_eye_of ?eyes = r"
    by (simp_all add: left_eye_of_def right_eye_of_def s)
  with assms have "process_face cv frame gray face
               = (Some (measure_eyes cv (face_roi cv frame face) l r), None)"
    by (simp add: process_face_cases)
  with s ms ord show ?thesis by (intro exI [of _ l] exI [of _ r] exI [of _ rest] conjI)
qed

text \<open>
  Three boxes at x = 130, 150 and 40: the boxes at 40 and 130 are measured.
\<close>

theorem two_leftmost_eyes_witness:
  "2 \<le> length (detect_eyes scenario_three photo middle_face)
   \<and> process_face scenario_three photo photo middle_face
       = (Some (measure_eyes scenario_three (face_roi scenario_three photo middle_face)
                  (40, 60, 30, 30) (130, 60, 30, 30)), None)"
proof -
  have h: "2 \<le> length (detect_eyes scenario_three photo middle_face)" by code_simp
  have s: "sort_key b0 (detect_eyes scenario_three photo middle_face)
             = [(40, 60, 30, 30), (130, 60, 30, 30), (150, 100, 30, 30)]"
    by code_simp
  from two_leftmost_eyes [OF h, of photo] obtain left right rest where
    1: "sort_key b0 (detect_eyes scenario_three photo middle_face) = left # right # rest"
    and 2: "process_face scenario_three photo photo middle_face
               = (Some (measure_eyes scenario_three
                    (face_roi scenario_three photo middle_face) left right), None)"
    by (elim exE conjE)
  from 1 s have "left = (40, 60, 30, 30)" "right = (130, 60, 30, 30)" by simp_all
  with 2 h show ?thesis by simp
qed

end
